theory Spec2Isabelle
  imports Main "HOL-Library.Sublist"
begin

section \<open>JavaScript values\<close>

text \<open>
  The form scripts read fields of documents, of real-time events and of RPC responses.
  Such a field holds an arbitrary JavaScript value; the model keeps the primitive ones.
  A field that is absent from its object reads as \<open>JUndefined\<close>, as a property access
  on an object does. Of the numbers the model has the safe integers (the integers up to
  \<open>Number.MAX_SAFE_INTEGER\<close> in absolute value, which are exact as doubles): \<open>JNum n\<close>
  stands for a JavaScript number only when \<open>is_safe_integer n\<close> holds. Strings are lists of
  8-bit characters, read as the code units 0 to 255.
\<close>

datatype js = JUndefined | JNull | JBool bool | JNum int | JStr string

definition is_safe_integer :: "int \<Rightarrow> bool" where
  "is_safe_integer n = (- 9007199254740991 \<le> n \<and> n \<le> 9007199254740991)"

fun js_value :: "js \<Rightarrow> bool" where
  "js_value (JNum n) = is_safe_integer n"
| "js_value v = True"

datatype js_error = TypeError

text \<open>
  A callback either runs to its end or throws; what it changed before the throw stays
  changed, so both outcomes carry the state.
\<close>

datatype 'a outcome = Completed 'a | Threw js_error 'a

fun state_of :: "'a outcome \<Rightarrow> 'a" where
  "state_of (Completed s) = s"
| "state_of (Threw e s) = s"

fun and_then :: "'a outcome \<Rightarrow> ('a \<Rightarrow> 'a outcome) \<Rightarrow> 'a outcome" where
  "and_then (Completed s) f = f s"
| "and_then (Threw e s) f = Threw e s"

text \<open>Truthiness, as \<open>!x\<close>, \<open>x || y\<close> and \<open>if (x)\<close> read it.\<close>

fun truthy :: "js \<Rightarrow> bool" where
  "truthy JUndefined = False"
| "truthy JNull = False"
| "truthy (JBool b) = b"
| "truthy (JNum n) = (n \<noteq> 0)"
| "truthy (JStr s) = (s \<noteq> [])"

definition js_or :: "js \<Rightarrow> js \<Rightarrow> js" where
  "js_or a b = (if truthy a then a else b)"

text \<open>
  The decimal digits of an integer. String concatenation and template literals render a
  number this way when it is an integer below \<open>10^21\<close> in absolute value, hence every
  safe integer; beyond that JavaScript uses exponent notation, which is outside the model.
\<close>

fun show_nat :: "nat \<Rightarrow> string" where
  "show_nat n =
     (if n < 10 then [''0123456789'' ! n]
      else show_nat (n div 10) @ [''0123456789'' ! (n mod 10)])"

declare show_nat.simps [simp del]

definition show_int :: "int \<Rightarrow> string" where
  "show_int i = (if i < 0 then CHR ''-'' # show_nat (nat (- i)) else show_nat (nat i))"

fun to_string :: "js \<Rightarrow> string" where
  "to_string JUndefined = ''undefined''"
| "to_string JNull = ''null''"
| "to_string (JBool b) = (if b then ''true'' else ''false'')"
| "to_string (JNum n) = show_int n"
| "to_string (JStr s) = s"

text \<open>\<open>s.includes(t)\<close>: some suffix of \<open>s\<close> starts with \<open>t\<close>.\<close>

fun str_includes :: "string \<Rightarrow> string \<Rightarrow> bool" where
  "str_includes [] t = (t = [])"
| "str_includes (c # cs) t = (prefix t (c # cs) \<or> str_includes cs t)"

section \<open>The progress dialog of site creation\<close>

text \<open>
  What jQuery's \<open>append\<close> does with a string: a string that matches
  \<open>/<|&#?\w+;/\<close> is parsed as HTML and the resulting nodes are inserted; any other string
  becomes one text node with exactly that content. \<open>Markup s\<close> stands for whatever the
  HTML parser makes of \<open>s\<close>.
\<close>

datatype log_node = TextNode string | Markup string

definition is_word_char :: "char \<Rightarrow> bool" where
  "is_word_char c =
     (let n = (of_char c :: nat)
      in (48 \<le> n \<and> n \<le> 57) \<or> (65 \<le> n \<and> n \<le> 90) \<or> n = 95 \<or> (97 \<le> n \<and> n \<le> 122))"

text \<open>What has to follow an ampersand: \<open>#?\w+;\<close>.\<close>

definition entity_follows :: "string \<Rightarrow> bool" where
  "entity_follows s =
     (let r = (case s of [] \<Rightarrow> [] | c # cs \<Rightarrow> if c = CHR ''#'' then cs else c # cs)
      in (case r of [] \<Rightarrow> False | c # cs \<Rightarrow> is_word_char c) \<and>
         (case dropWhile is_word_char r of [] \<Rightarrow> False | c # cs \<Rightarrow> c = CHR '';''))"

fun rhtml :: "string \<Rightarrow> bool" where
  "rhtml [] = False"
| "rhtml (c # cs) = (c = CHR ''<'' \<or> (c = CHR ''&'' \<and> entity_follows cs) \<or> rhtml cs)"

definition appended :: "string \<Rightarrow> log_node" where
  "appended s = (if rhtml s then Markup s else TextNode s)"

text \<open>
  What jQuery's \<open>css('width', percentage + '%')\<close> writes for a number: the setter for
  \<open>width\<close> reads the number back from the string and stores \<open>Math.max(0, n)\<close> with
  the unit, so a negative number gives \<open>0%\<close>. For a percentage that is not a number the
  model does not say what the style holds afterwards (\<open>None\<close>).
\<close>

definition css_width :: "js \<Rightarrow> string option" where
  "css_width percentage =
     (case percentage of
        JNum n \<Rightarrow> if is_safe_integer n then Some (show_int (max 0 n) @ ''%'') else None
      | _ \<Rightarrow> None)"

text \<open>
  The dialog built by \<open>start_site_creation\<close>: whether it is shown, the width in the style
  of \<open>#progress-bar\<close>, the text of \<open>#progress-text\<close>, and what has been appended to
  \<open>#progress-log\<close>, one list element for each \<open>append\<close>. How the browser lays the
  elements out (clipping, scroll position) is left out.
\<close>

record dialog =
  shown :: bool
  bar_width :: "string option"
  progress_text :: string
  progress_log :: "log_node list"

definition new_dialog :: dialog where
  "new_dialog = \<lparr>shown = False, bar_width = Some ''0%'', progress_text = ''Initializing...'',
                  progress_log = []\<rparr>"

text \<open>
  jQuery's \<open>text(value)\<close>: with \<open>undefined\<close> it only reads, so the text stays; with
  \<open>null\<close> the text becomes empty; any other value is written as a string.
\<close>

definition set_text :: "js \<Rightarrow> string \<Rightarrow> string" where
  "set_text v old =
     (case v of JUndefined \<Rightarrow> old | JNull \<Rightarrow> [] | _ \<Rightarrow> to_string v)"

text \<open>
  \<open>update_progress(percentage, message, dialog)\<close>. The reading of the clock,
  \<open>new Date().toLocaleTimeString()\<close>, is the argument \<open>timestamp\<close>.
\<close>

definition log_entry :: "string \<Rightarrow> js \<Rightarrow> string" where
  "log_entry timestamp message = ''['' @ timestamp @ ''] '' @ to_string message @ [CHR 0x0A]"

definition update_progress :: "js \<Rightarrow> js \<Rightarrow> string \<Rightarrow> dialog \<Rightarrow> dialog" where
  "update_progress percentage message timestamp d =
     d\<lparr>bar_width := css_width percentage,
       progress_text := set_text message (progress_text d),
       progress_log := progress_log d @ [appended (log_entry timestamp message)]\<rparr>"

text \<open>A sequence of calls, each with its own clock reading, in the order they are made.\<close>

fun render_all :: "(js \<times> js \<times> string) list \<Rightarrow> dialog \<Rightarrow> dialog" where
  "render_all [] d = d"
| "render_all ((percentage, message, timestamp) # calls) d =
     render_all calls (update_progress percentage message timestamp d)"

text \<open>The dialog's primary action, \<open>Close\<close>.\<close>

definition primary_action :: "dialog \<Rightarrow> dialog" where
  "primary_action d = d\<lparr>shown := False\<rparr>"

section \<open>Customer Site: launching site creation\<close>

text \<open>
  The fields of \<open>frm.doc\<close> that the Customer Site script reads.
\<close>

record site_doc =
  site_name :: js
  site_status :: js
  site_custom_domain :: js
  site_instance :: js
  site_package :: js

text \<open>
  Calls into the framework, in the order the script makes them. A message that the script
  passes through the translation function \<open>__\<close> is recorded as the text handed to it.
  \<open>ShowAlert\<close> carries the message and the indicator colour; \<open>Call\<close> the method and
  its arguments.
\<close>

datatype effect =
    Msgprint string
  | Confirm string
  | DialogShow
  | RealtimeOn string
  | Call string "(string \<times> js) list"
  | ShowAlert string string
  | ReloadDoc

text \<open>
  What the closures created by one run of \<open>start_site_creation\<close> share: their dialog
  and the page they act on.
\<close>

record session =
  progress_dialog :: dialog
  effects :: "effect list"

datatype launch = NotStarted "effect list" | Started session

text \<open>
  \<open>start_site_creation(frm)\<close>: the dialog is built and shown, the listener is registered
  with \<open>frappe.realtime.on\<close>, and \<open>frappe.call\<close> sends the request. The listener and the
  callback of the call run later; they are \<open>on_site_creation_progress\<close> and
  \<open>create_site_callback\<close> below.
\<close>

definition start_site_creation :: "site_doc \<Rightarrow> effect list \<Rightarrow> session" where
  "start_site_creation frm page =
     \<lparr>progress_dialog = new_dialog\<lparr>shown := True\<rparr>,
      effects = page @
        [DialogShow,
         RealtimeOn ''site_creation_progress'',
         Call ''saas_package_management.saas_package_management.doctype.customer_site.customer_site.create_site''
           [(''customer_site'', site_name frm)]]\<rparr>"

text \<open>
  \<open>create_site_with_progress(frm)\<close>. The user's answer to \<open>frappe.confirm\<close> is the
  argument \<open>confirmed\<close>; the continuation runs on a yes only.
\<close>

definition create_site_with_progress :: "site_doc \<Rightarrow> bool \<Rightarrow> effect list \<Rightarrow> launch" where
  "create_site_with_progress frm confirmed page =
     (if \<not> truthy (site_custom_domain frm) then
        NotStarted (page @ [Msgprint ''Custom Domain is required to create site''])
      else if \<not> truthy (site_instance frm) then
        NotStarted (page @ [Msgprint ''Instance is required to create site''])
      else if \<not> truthy (site_package frm) then
        NotStarted (page @ [Msgprint ''Package is required to create site''])
      else
        (let asked = page @
           [Confirm ''Are you sure you want to create the site? This process may take several minutes.'']
         in if confirmed then Started (start_site_creation frm asked) else NotStarted asked))"

text \<open>The \<open>refresh\<close> handler offers the button for an active site only.\<close>

definition refresh_adds_create_site :: "site_doc \<Rightarrow> bool" where
  "refresh_adds_create_site frm = (site_status frm = JStr ''Active'')"

text \<open>
  An event of the channel \<open>site_creation_progress\<close>, and the listener registered for it.
  On the values of the model \<open>===\<close> is equality. \<open>data.message.includes\<close> throws a
  TypeError unless \<open>data.message\<close> is a string.
\<close>

record progress_event =
  progress :: js
  message :: js

definition on_site_creation_progress :: "progress_event \<Rightarrow> string \<Rightarrow> session \<Rightarrow> session outcome" where
  "on_site_creation_progress data timestamp s =
     (let s1 = s\<lparr>progress_dialog :=
                  update_progress (js_or (progress data) (JNum 0)) (js_or (message data) (JStr []))
                    timestamp (progress_dialog s)\<rparr>
      in if progress data = JNum 100 then
           Completed (s1\<lparr>effects := effects s1 @
             [ReloadDoc, ShowAlert ''Site created successfully!'' ''green'']\<rparr>)
         else if progress data = JNum 0 then
           (case message data of
              JStr m \<Rightarrow>
                if str_includes m ''failed'' then
                  Completed (s1\<lparr>effects := effects s1 @
                    [ShowAlert (''Site creation failed: '' @ m) ''red'']\<rparr>)
                else Completed s1
            | _ \<Rightarrow> Threw TypeError s1)
         else Completed s1)"

text \<open>
  Events arrive one at a time; a listener that throws ends that delivery only.
\<close>

fun deliver :: "(progress_event \<times> string) list \<Rightarrow> session \<Rightarrow> session" where
  "deliver [] s = s"
| "deliver ((data, timestamp) # later) s =
     deliver later (state_of (on_site_creation_progress data timestamp s))"

text \<open>
  The response \<open>r\<close> of the start call: \<open>r.message\<close> is absent (\<open>None\<close>) or an object
  with the fields \<open>success\<close> and \<open>message\<close>. With \<open>r.message\<close> absent the condition is
  false and the other branch reads \<open>r.message.message\<close>, which throws before anything
  is updated.
\<close>

record response_payload =
  payload_success :: js
  payload_message :: js

definition create_site_callback :: "response_payload option \<Rightarrow> string \<Rightarrow> session \<Rightarrow> session outcome" where
  "create_site_callback r_message timestamp s =
     (case r_message of
        None \<Rightarrow> Threw TypeError s
      | Some p \<Rightarrow>
          if truthy (payload_success p) then
            Completed (s\<lparr>progress_dialog :=
              update_progress (JNum 5) (JStr ''Site creation process started...'') timestamp
                (progress_dialog s)\<rparr>)
          else
            (let text = ''Failed to start site creation: '' @
                          to_string (js_or (payload_message p) (JStr ''Unknown error''))
             in Completed (s\<lparr>progress_dialog :=
                             update_progress (JNum 0) (JStr text) timestamp (progress_dialog s),
                           effects := effects s @ [ShowAlert text ''red'']\<rparr>)))"

section \<open>Customer Request: the suggested domain\<close>

text \<open>
  \<open>toLowerCase\<close> on the code units 0 to 255: the letters A to Z and the capital letters
  of Latin-1 (0xC0 to 0xDE without 0xD7) move up by 32.
\<close>

definition to_lower_case :: "char \<Rightarrow> char" where
  "to_lower_case c =
     (let n = (of_char c :: nat)
      in if (65 \<le> n \<and> n \<le> 90) \<or> (192 \<le> n \<and> n \<le> 222 \<and> n \<noteq> 215) then char_of (n + 32) else c)"

text \<open>The class \<open>\s\<close> on these code units: tab to carriage return, space, no-break space.\<close>

definition is_space :: "char \<Rightarrow> bool" where
  "is_space c = (let n = (of_char c :: nat) in (9 \<le> n \<and> n \<le> 13) \<or> n = 32 \<or> n = 160)"

text \<open>The class \<open>[a-zA-Z0-9-]\<close>.\<close>

definition is_domain_char :: "char \<Rightarrow> bool" where
  "is_domain_char c =
     (let n = (of_char c :: nat)
      in (97 \<le> n \<and> n \<le> 122) \<or> (65 \<le> n \<and> n \<le> 90) \<or> (48 \<le> n \<and> n \<le> 57) \<or> n = 45)"

text \<open>
  \<open>s.replace(/C+/g, r)\<close> for a character class \<open>C\<close>: scanning from the left, a character
  of the class starts a match that takes all the characters of the class that follow.
\<close>

function replace_runs :: "(char \<Rightarrow> bool) \<Rightarrow> string \<Rightarrow> string \<Rightarrow> string" where
  "replace_runs C r [] = []"
| "replace_runs C r (c # cs) =
     (if C c then r @ replace_runs C r (dropWhile C cs) else c # replace_runs C r cs)"
  by pat_completeness auto
termination
  by (relation "measure (\<lambda>(C, r, s). length s)")
     (auto simp: le_imp_less_Suc length_dropWhile_le)

text \<open>\<open>s.replace(/C/g, r)\<close>: every character of the class is a match of its own.\<close>

fun replace_each :: "(char \<Rightarrow> bool) \<Rightarrow> string \<Rightarrow> string \<Rightarrow> string" where
  "replace_each C r [] = []"
| "replace_each C r (c # cs) = (if C c then r else [c]) @ replace_each C r cs"

definition suggest_domain :: "string \<Rightarrow> string" where
  "suggest_domain customer =
     take 20
       (replace_each (\<lambda>c. \<not> is_domain_char c) []
          (replace_runs is_space ''-'' (map to_lower_case customer)))"

text \<open>
  The Customer Request form: the two fields, the preview element under the domain field
  (its full domain, when there is one), and whether the page has the domain field.
\<close>

record request_form =
  customer_name :: js
  custom_domain :: js
  preview :: "string option"
  domain_field_present :: bool

text \<open>\<open>show_domain_preview(frm)\<close>; \<open>endsWith\<close> throws unless the domain is a string.\<close>

definition show_domain_preview :: "request_form \<Rightarrow> request_form outcome" where
  "show_domain_preview frm =
     (let cleared = frm\<lparr>preview := None\<rparr>
      in if truthy (custom_domain cleared) then
           (case custom_domain cleared of
              JStr d \<Rightarrow>
                (let full_domain = (if suffix ''.ibssaas.com'' d then d else d @ ''.ibssaas.com'')
                 in Completed (if domain_field_present cleared
                               then cleared\<lparr>preview := Some full_domain\<rparr> else cleared))
            | _ \<Rightarrow> Threw TypeError cleared)
         else Completed cleared)"

text \<open>
  \<open>frm.set_value('custom_domain', v)\<close> stores the value and runs the field's own handler,
  which is \<open>show_domain_preview\<close>.
\<close>

definition set_custom_domain :: "js \<Rightarrow> request_form \<Rightarrow> request_form outcome" where
  "set_custom_domain v frm = show_domain_preview (frm\<lparr>custom_domain := v\<rparr>)"

text \<open>
  The handler of the field \<open>customer_name\<close>; \<open>toLowerCase\<close> throws unless the name is a
  string.
\<close>

definition on_customer_name :: "request_form \<Rightarrow> request_form outcome" where
  "on_customer_name frm =
     (if truthy (customer_name frm) \<and> \<not> truthy (custom_domain frm) then
        (case customer_name frm of
           JStr customer \<Rightarrow>
             (let suggested_domain = suggest_domain customer
              in if suggested_domain \<noteq> [] then
                   and_then (set_custom_domain (JStr suggested_domain) frm) show_domain_preview
                 else Completed frm)
         | _ \<Rightarrow> Threw TypeError frm)
      else Completed frm)"

section \<open>Strings, the presenter and the listener\<close>


lemma render_all_log:
  "progress_log (render_all calls d) =
     progress_log d @
       map (\<lambda>(percentage, message, timestamp). appended (log_entry timestamp message)) calls"
  by (induction calls d rule: render_all.induct) (simp_all add: update_progress_def set_text_def)

lemma render_all_shown: "shown (render_all calls d) = shown d"
  by (induction calls d rule: render_all.induct) (simp_all add: update_progress_def set_text_def)

lemma render_all_append:
  "render_all (calls @ later) d = render_all later (render_all calls d)"
  by (induction calls d rule: render_all.induct) simp_all

lemma show_int_0: "show_int 0 = ''0''" by (simp add: show_int_def show_nat.simps)
lemma show_int_5: "show_int 5 = ''5''" by (simp add: show_int_def show_nat.simps)

lemma deliver_append: "deliver (evs @ later) s = deliver later (deliver evs s)"
  by (induction evs s rule: deliver.induct) simp_all

lemma on_progress_dialog:
  "progress_dialog (state_of (on_site_creation_progress data timestamp s)) =
     update_progress (js_or (progress data) (JNum 0)) (js_or (message data) (JStr [])) timestamp
       (progress_dialog s)"
  by (simp add: on_site_creation_progress_def Let_def split: js.splits)

lemma on_progress_reload:
  "progress data \<noteq> JNum 100 \<Longrightarrow>
     count_list (effects (state_of (on_site_creation_progress data timestamp s))) ReloadDoc =
       count_list (effects s) ReloadDoc"
  by (simp add: on_site_creation_progress_def Let_def split: js.splits)

lemma on_progress_green:
  "progress data \<noteq> JNum 100 \<Longrightarrow>
     count_list (effects (state_of (on_site_creation_progress data timestamp s)))
         (ShowAlert ''Site created successfully!'' ''green'') =
       count_list (effects s) (ShowAlert ''Site created successfully!'' ''green'')"
  by (simp add: on_site_creation_progress_def Let_def split: js.splits)

lemma deliver_reload:
  "\<forall>(data, timestamp) \<in> set evs. progress data \<noteq> JNum 100 \<Longrightarrow>
     count_list (effects (deliver evs s)) ReloadDoc = count_list (effects s) ReloadDoc"
  by (induction evs s rule: deliver.induct) (simp_all add: on_progress_reload)

lemma deliver_green:
  "\<forall>(data, timestamp) \<in> set evs. progress data \<noteq> JNum 100 \<Longrightarrow>
     count_list (effects (deliver evs s)) (ShowAlert ''Site created successfully!'' ''green'') =
       count_list (effects s) (ShowAlert ''Site created successfully!'' ''green'')"
  by (induction evs s rule: deliver.induct) (simp_all add: on_progress_green)

lemma deliver_log:
  "progress_log (progress_dialog (deliver evs s)) =
     progress_log (progress_dialog s) @
       map (\<lambda>(data, timestamp). appended (log_entry timestamp (js_or (message data) (JStr []))))
         evs"
  by (induction evs s rule: deliver.induct)
     (simp_all add: on_progress_dialog update_progress_def set_text_def)

lemma render_all_plain_log:
  "\<forall>(percentage, message, timestamp) \<in> set calls. \<not> rhtml (log_entry timestamp message) \<Longrightarrow>
     progress_log (render_all calls d) =
       progress_log d @
         map (\<lambda>(percentage, message, timestamp). TextNode (log_entry timestamp message)) calls"
  unfolding render_all_log by (induction calls) (auto simp: appended_def)

lemma rhtml_less_than: "CHR ''<'' \<in> set s \<Longrightarrow> rhtml s"
  by (induction s) auto

lemma on_progress_quiet:
  "progress data \<noteq> JNum 100 \<Longrightarrow>
   \<not> (progress data = JNum 0 \<and> (\<exists>m. message data = JStr m \<and> str_includes m ''failed'')) \<Longrightarrow>
     effects (state_of (on_site_creation_progress data timestamp s)) = effects s"
  by (cases "message data") (auto simp: on_site_creation_progress_def Let_def)

lemma deliver_quiet:
  "\<forall>(data, timestamp) \<in> set evs.
      progress data \<noteq> JNum 100 \<and>
      \<not> (progress data = JNum 0 \<and> (\<exists>m. message data = JStr m \<and> str_includes m ''failed'')) \<Longrightarrow>
     effects (deliver evs s) = effects s"
  by (induction evs s rule: deliver.induct) (simp_all add: on_progress_quiet)

lemma deliver_then_100:
  "effects (deliver (evs @ [(\<lparr>progress = JNum 100, message = m\<rparr>, t)]) s) =
     effects (deliver evs s) @ [ReloadDoc, ShowAlert ''Site created successfully!'' ''green'']"
  by (simp add: deliver_append on_site_creation_progress_def)

lemma deliver_then_failed:
  "str_includes m ''failed'' \<Longrightarrow>
     effects (deliver (evs @ [(\<lparr>progress = JNum 0, message = JStr m\<rparr>, t)]) s) =
       effects (deliver evs s) @ [ShowAlert (''Site creation failed: '' @ m) ''red'']"
  by (simp add: deliver_append on_site_creation_progress_def)

lemma is_safe_integer_percent:
  "is_safe_integer 0" "is_safe_integer 5" "is_safe_integer 100"
  by (simp_all add: is_safe_integer_def)

lemma replace_each_filter: "replace_each (\<lambda>c. \<not> C c) [] s = filter C s"
  by (induction s) simp_all

lemma replace_runs_no_match: "\<forall>c \<in> set s. \<not> C c \<Longrightarrow> replace_runs C r s = s"
  by (induction s) simp_all

lemma dropWhile_run:
  "\<forall>c \<in> set ws. C c \<Longrightarrow> ys = [] \<or> \<not> C (hd ys) \<Longrightarrow> dropWhile C (ws @ ys) = ys"
  by (cases ys) (simp_all add: dropWhile_append)

lemma replace_runs_run:
  assumes "ws \<noteq> []" and "\<forall>c \<in> set ws. C c" and "ys = [] \<or> \<not> C (hd ys)"
  shows "replace_runs C r (ws @ ys) = r @ replace_runs C r ys"
proof -
  from assms(1) obtain w ws' where ws: "ws = w # ws'" by (cases ws) auto
  with assms(2) have w: "C w" and rest: "\<forall>c \<in> set ws'. C c" by simp_all
  from rest assms(3) have "dropWhile C (ws' @ ys) = ys" by (rule dropWhile_run)
  with w ws show ?thesis by simp
qed

lemma dropWhile_keeps_last:
  assumes "cs \<noteq> []" and "\<not> C (last cs)"
  shows "dropWhile C (cs @ ys) = dropWhile C cs @ ys"
    and "dropWhile C cs \<noteq> []"
    and "last (dropWhile C cs) = last cs"
proof -
  from assms have ex: "\<exists>x \<in> set cs. \<not> C x" using last_in_set by blast
  then show "dropWhile C (cs @ ys) = dropWhile C cs @ ys" by (auto simp: dropWhile_append)
  from ex show ne: "dropWhile C cs \<noteq> []" by (auto simp: dropWhile_eq_Nil_conv)
  have "cs = takeWhile C cs @ dropWhile C cs" by simp
  then have "last cs = last (takeWhile C cs @ dropWhile C cs)" by simp
  also have "\<dots> = last (dropWhile C cs)" using ne by (rule last_appendR)
  finally show "last (dropWhile C cs) = last cs" by simp
qed

lemma replace_runs_append:
  "xs = [] \<or> \<not> C (last xs) \<Longrightarrow>
     replace_runs C r (xs @ ys) = replace_runs C r xs @ replace_runs C r ys"
proof (induction C r xs rule: replace_runs.induct)
  case (1 C r)
  then show ?case by simp
next
  case (2 C r c cs)
  show ?case
  proof (cases "C c")
    case True
    from 2(3) True have ne: "cs \<noteq> []" by auto
    with 2(3) have last: "\<not> C (last cs)" by simp
    note dk = dropWhile_keeps_last[of cs C, OF ne last]
    from dk(3) last have "dropWhile C cs = [] \<or> \<not> C (last (dropWhile C cs))" by simp
    from 2(1)[OF True this] have
      "replace_runs C r (dropWhile C cs @ ys) =
         replace_runs C r (dropWhile C cs) @ replace_runs C r ys" .
    with dk(1)[of ys] True show ?thesis by simp
  next
    case False
    show ?thesis
    proof (cases "cs = []")
      case True
      with False show ?thesis by simp
    next
      case ne: False
      with 2(3) have "cs = [] \<or> \<not> C (last cs)" by simp
      from 2(2)[OF False this] False show ?thesis by simp
    qed
  qed
qed

lemma set_replace_runs: "set (replace_runs C r s) \<subseteq> set s \<union> set r"
proof (induction C r s rule: replace_runs.induct)
  case (1 C r)
  then show ?case by simp
next
  case (2 C r c cs)
  have "set (dropWhile C cs) \<subseteq> set cs" by (simp add: set_dropWhileD subsetI)
  with 2 show ?case by (cases "C c") auto
qed

section \<open>The suggested domain\<close>

lemma of_char_shift:
  "n \<le> 222 \<Longrightarrow> (of_char (char_of (n + 32 :: nat) :: char) :: nat) = n + 32"
  by simp

lemma to_lower_case_not_upper:
  "\<not> (65 \<le> (of_char (to_lower_case c) :: nat) \<and> (of_char (to_lower_case c) :: nat) \<le> 90)"
proof (cases "(65 \<le> (of_char c :: nat) \<and> (of_char c :: nat) \<le> 90) \<or>
              (192 \<le> (of_char c :: nat) \<and> (of_char c :: nat) \<le> 222 \<and> (of_char c :: nat) \<noteq> 215)")
  case True
  then have le: "(of_char c :: nat) \<le> 222" by auto
  from True have "to_lower_case c = char_of ((of_char c :: nat) + 32)"
    by (simp add: to_lower_case_def Let_def)
  then have "(of_char (to_lower_case c) :: nat) = of_char c + 32"
    using of_char_shift[OF le] by simp
  with True show ?thesis by auto
next
  case False
  then have "to_lower_case c = c" by (auto simp: to_lower_case_def Let_def)
  with False show ?thesis by auto
qed

lemma length_suggest_domain: "length (suggest_domain customer) \<le> 20"
  by (simp add: suggest_domain_def)

lemma suggest_domain_filter:
  "suggest_domain customer =
     take 20 (filter is_domain_char (replace_runs is_space ''-'' (map to_lower_case customer)))"
  by (simp add: suggest_domain_def replace_each_filter)

lemma suggest_domain_chars:
  assumes "c \<in> set (suggest_domain customer)"
  shows "(97 \<le> (of_char c :: nat) \<and> (of_char c :: nat) \<le> 122) \<or>
         (48 \<le> (of_char c :: nat) \<and> (of_char c :: nat) \<le> 57) \<or> c = CHR ''-''"
proof -
  let ?low = "map to_lower_case customer"
  from assms have "c \<in> set (filter is_domain_char (replace_runs is_space ''-'' ?low))"
    unfolding suggest_domain_filter by (rule in_set_takeD)
  then have dom: "is_domain_char c" and mem: "c \<in> set (replace_runs is_space ''-'' ?low)"
    by simp_all
  from mem set_replace_runs[of is_space "''-''" ?low] have "c \<in> set ?low \<or> c = CHR ''-''"
    by auto
  then show ?thesis
  proof
    assume "c \<in> set ?low"
    then obtain d where "c = to_lower_case d" by auto
    with to_lower_case_not_upper[of d] have nu: "\<not> (65 \<le> (of_char c :: nat) \<and> (of_char c :: nat) \<le> 90)"
      by simp
    from dom have "(97 \<le> (of_char c :: nat) \<and> (of_char c :: nat) \<le> 122) \<or>
        (65 \<le> (of_char c :: nat) \<and> (of_char c :: nat) \<le> 90) \<or>
        (48 \<le> (of_char c :: nat) \<and> (of_char c :: nat) \<le> 57) \<or> (of_char c :: nat) = 45"
      by (simp add: is_domain_char_def Let_def)
    moreover have "(of_char c :: nat) = 45 \<Longrightarrow> c = CHR ''-''"
    proof -
      assume "(of_char c :: nat) = 45"
      then have "(of_char c :: nat) = of_char CHR ''-''" by simp
      then show "c = CHR ''-''" by (simp only: of_char_eq_iff)
    qed
    ultimately show ?thesis using nu by blast
  next
    assume "c = CHR ''-''"
    then show ?thesis by simp
  qed
qed

section \<open>The launch, the acknowledgment and the preview\<close>

lemma confirmed_launch_starts:
  "truthy (site_custom_domain frm) \<Longrightarrow> truthy (site_instance frm) \<Longrightarrow> truthy (site_package frm) \<Longrightarrow>
     create_site_with_progress frm True page =
       Started (start_site_creation frm (page @
         [Confirm ''Are you sure you want to create the site? This process may take several minutes.'']))"
  by (simp add: create_site_with_progress_def)

lemma declined_launch_stops:
  "truthy (site_custom_domain frm) \<Longrightarrow> truthy (site_instance frm) \<Longrightarrow> truthy (site_package frm) \<Longrightarrow>
     create_site_with_progress frm False page =
       NotStarted (page @
         [Confirm ''Are you sure you want to create the site? This process may take several minutes.''])"
  by (simp add: create_site_with_progress_def)

lemma show_domain_preview_string:
  "d \<noteq> [] \<Longrightarrow> custom_domain frm = JStr d \<Longrightarrow>
     show_domain_preview frm =
       Completed (frm\<lparr>preview :=
         (if domain_field_present frm
          then Some (if suffix ''.ibssaas.com'' d then d else d @ ''.ibssaas.com'') else None)\<rparr>)"
  by (simp add: show_domain_preview_def Let_def)

lemma failed_start_is_reported:
  "\<not> truthy (payload_success p) \<Longrightarrow> js_value (payload_message p) \<Longrightarrow>
     create_site_callback (Some p) timestamp s =
       Completed (s\<lparr>progress_dialog :=
                     update_progress (JNum 0)
                       (JStr (''Failed to start site creation: '' @
                              (if truthy (payload_message p) then to_string (payload_message p)
                               else ''Unknown error'')))
                       timestamp (progress_dialog s),
                   effects := effects s @
                     [ShowAlert (''Failed to start site creation: '' @
                                 (if truthy (payload_message p) then to_string (payload_message p)
                                  else ''Unknown error'')) ''red'']\<rparr>)"
  by (simp add: create_site_callback_def js_or_def Let_def)

lemma scenario_in_progress_failure_success:
  "effects (deliver
      [(\<lparr>progress = JNum 10, message = JStr ''provisioning''\<rparr>, ''10:00:05''),
       (\<lparr>progress = JNum 0, message = JStr ''retry failed''\<rparr>, ''10:00:09''),
       (\<lparr>progress = JNum 100, message = JStr ''done''\<rparr>, ''10:00:40'')]
      \<lparr>progress_dialog = new_dialog\<lparr>shown := True\<rparr>, effects = []\<rparr>) =
     [ShowAlert ''Site creation failed: retry failed'' ''red'',
      ReloadDoc,
      ShowAlert ''Site created successfully!'' ''green'']"
  by (simp add: on_site_creation_progress_def Let_def)

section \<open>Claims about site creation\<close>

text \<open>
  C1. A progress event whose \<open>progress\<close> is 100 is a success whatever its message is,
  also when the message is absent or contains "failed": the presenter is updated, the
  record is reloaded and the green notification is raised.
\<close>

theorem progress_100_is_success:
  "on_site_creation_progress \<lparr>progress = JNum 100, message = m\<rparr> timestamp s =
     Completed (s\<lparr>progress_dialog :=
                   update_progress (JNum 100) (js_or m (JStr [])) timestamp (progress_dialog s),
                 effects := effects s @
                   [ReloadDoc, ShowAlert ''Site created successfully!'' ''green'']\<rparr>)"
  by (simp add: on_site_creation_progress_def js_or_def)

theorem progress_100_is_success_witness:
  "on_site_creation_progress \<lparr>progress = JNum 100, message = JStr ''cleanup failed''\<rparr> ''10:00:00''
       \<lparr>progress_dialog = new_dialog\<lparr>shown := True\<rparr>, effects = []\<rparr> =
     Completed \<lparr>progress_dialog =
                  \<lparr>shown = True, bar_width = Some ''100%'', progress_text = ''cleanup failed'',
                   progress_log = [TextNode (''[10:00:00] cleanup failed'' @ [CHR 0x0A])]\<rparr>,
                effects = [ReloadDoc, ShowAlert ''Site created successfully!'' ''green'']\<rparr>"
  using progress_100_is_success [of "JStr ''cleanup failed''" "''10:00:00''"
      "\<lparr>progress_dialog = new_dialog\<lparr>shown := True\<rparr>, effects = []\<rparr>"]
  by (simp add: update_progress_def set_text_def css_width_def is_safe_integer_def appended_def
      js_or_def new_dialog_def log_entry_def show_int_def show_nat.simps)



text \<open>
  C3. When the domain, the instance or the package of the record is empty or missing, the
  launch stops at the first of them in that order: one message that names it is shown, and
  neither the confirmation nor the dialog, the listener or the call follows, whatever the
  user would have answered.
\<close>

theorem missing_field_aborts_launch:
  "\<not> truthy (site_custom_domain frm) \<or> \<not> truthy (site_instance frm) \<or> \<not> truthy (site_package frm) \<Longrightarrow>
     create_site_with_progress frm confirmed page =
       NotStarted (page @
         [Msgprint (if \<not> truthy (site_custom_domain frm) then ''Custom Domain is required to create site''
                    else if \<not> truthy (site_instance frm) then ''Instance is required to create site''
                    else ''Package is required to create site'')])"
  by (auto simp: create_site_with_progress_def)

theorem missing_field_aborts_launch_witness:
  "create_site_with_progress
       \<lparr>site_name = JStr ''acme-site'', site_status = JStr ''Active'',
        site_custom_domain = JStr ''acme'', site_instance = JUndefined, site_package = JStr []\<rparr>
       True [] =
     NotStarted [Msgprint ''Instance is required to create site'']"
  using missing_field_aborts_launch [of
      "\<lparr>site_name = JStr ''acme-site'', site_status = JStr ''Active'',
        site_custom_domain = JStr ''acme'', site_instance = JUndefined, site_package = JStr []\<rparr>"
      True "[]"]
  by simp




text \<open>
  C5. The listener guards the message where it passes it to the presenter, but not where
  it searches it: an event with progress 0 and no message makes \<open>includes\<close> throw a
  TypeError, after the presenter has been updated.
\<close>

theorem absent_message_at_zero_throws:
  "on_site_creation_progress \<lparr>progress = JNum 0, message = JUndefined\<rparr> timestamp s =
     Threw TypeError
       (s\<lparr>progress_dialog := update_progress (JNum 0) (JStr []) timestamp (progress_dialog s)\<rparr>)"
  by (simp add: on_site_creation_progress_def js_or_def)

text \<open>
  C6. A response of the start call that carries no \<open>r.message\<close> has no success flag, so
  the callback takes the failure branch; there it reads \<open>r.message.message\<close> and throws a
  TypeError before the presenter is updated or an alert is raised. (With \<open>r.message\<close>
  present and its flag false or absent the failure is reported as the claim says, see
  \<open>failed_start_is_reported\<close>.)
\<close>

theorem start_response_without_payload_throws:
  "create_site_callback None timestamp s = Threw TypeError s"
  by (simp add: create_site_callback_def)

text \<open>
  C7, as amended. When the acknowledgment reports success, the callback only updates the
  presenter, to 5 percent and "Site creation process started...": it adds no call into the
  framework. After it, as long as no event with progress 100 is delivered, the record is
  not reloaded and the success notification is not raised; and as long as, besides, no
  event with progress 0 and a message containing "failed" is delivered, nothing at all is
  raised. An event with progress 100 then reloads the record and raises the success
  notification; an event with progress 0 and a message containing "failed" raises the
  failure notification, which does not wait for progress 100.
\<close>

theorem started_ack_is_not_terminal:
  "truthy (payload_success p) \<longrightarrow>
     create_site_callback (Some p) timestamp s =
       Completed (s\<lparr>progress_dialog :=
                     update_progress (JNum 5) (JStr ''Site creation process started...'') timestamp
                       (progress_dialog s)\<rparr>)
     \<and> bar_width (progress_dialog (state_of (create_site_callback (Some p) timestamp s))) =
         Some ''5%''
     \<and> effects (state_of (create_site_callback (Some p) timestamp s)) = effects s
     \<and> ((\<forall>(data, t) \<in> set evs. progress data \<noteq> JNum 100) \<longrightarrow>
          count_list (effects (deliver evs (state_of (create_site_callback (Some p) timestamp s))))
              ReloadDoc = count_list (effects s) ReloadDoc
          \<and> count_list (effects (deliver evs (state_of (create_site_callback (Some p) timestamp s))))
              (ShowAlert ''Site created successfully!'' ''green'') =
            count_list (effects s) (ShowAlert ''Site created successfully!'' ''green''))
     \<and> ((\<forall>(data, t) \<in> set evs.
            progress data \<noteq> JNum 100 \<and>
            \<not> (progress data = JNum 0 \<and>
               (\<exists>m. message data = JStr m \<and> str_includes m ''failed''))) \<longrightarrow>
          effects (deliver evs (state_of (create_site_callback (Some p) timestamp s))) =
            effects s)
     \<and> effects (deliver (evs @ [(\<lparr>progress = JNum 100, message = m\<rparr>, t)])
                  (state_of (create_site_callback (Some p) timestamp s))) =
         effects (deliver evs (state_of (create_site_callback (Some p) timestamp s))) @
           [ReloadDoc, ShowAlert ''Site created successfully!'' ''green'']
     \<and> (str_includes fm ''failed'' \<longrightarrow>
          effects (deliver (evs @ [(\<lparr>progress = JNum 0, message = JStr fm\<rparr>, t)])
                     (state_of (create_site_callback (Some p) timestamp s))) =
            effects (deliver evs (state_of (create_site_callback (Some p) timestamp s))) @
              [ShowAlert (''Site creation failed: '' @ fm) ''red''])"
proof (intro impI)
  assume ok: "truthy (payload_success p)"
  let ?s' = "s\<lparr>progress_dialog :=
                 update_progress (JNum 5) (JStr ''Site creation process started...'') timestamp
                   (progress_dialog s)\<rparr>"
  let ?r = "create_site_callback (Some p) timestamp s"
  from ok have run: "?r = Completed ?s'"
    by (simp add: create_site_callback_def)
  then have st: "state_of ?r = ?s'" by simp
  have bar: "bar_width (progress_dialog ?s') = Some ''5%''"
    by (simp add: update_progress_def css_width_def is_safe_integer_def show_int_5)
  have eff: "effects ?s' = effects s" by simp
  have later: "(\<forall>(data, t) \<in> set evs. progress data \<noteq> JNum 100) \<longrightarrow>
      count_list (effects (deliver evs ?s')) ReloadDoc = count_list (effects s) ReloadDoc
      \<and> count_list (effects (deliver evs ?s')) (ShowAlert ''Site created successfully!'' ''green'') =
          count_list (effects s) (ShowAlert ''Site created successfully!'' ''green'')"
    using deliver_reload [of evs ?s'] deliver_green [of evs ?s'] eff by simp
  have quiet: "(\<forall>(data, t) \<in> set evs.
            progress data \<noteq> JNum 100 \<and>
            \<not> (progress data = JNum 0 \<and>
               (\<exists>m. message data = JStr m \<and> str_includes m ''failed''))) \<longrightarrow>
      effects (deliver evs ?s') = effects s"
    using deliver_quiet [of evs ?s'] eff by simp
  have hundred: "effects (deliver (evs @ [(\<lparr>progress = JNum 100, message = m\<rparr>, t)]) ?s') =
      effects (deliver evs ?s') @ [ReloadDoc, ShowAlert ''Site created successfully!'' ''green'']"
    by (rule deliver_then_100)
  have fails: "str_includes fm ''failed'' \<longrightarrow>
      effects (deliver (evs @ [(\<lparr>progress = JNum 0, message = JStr fm\<rparr>, t)]) ?s') =
        effects (deliver evs ?s') @ [ShowAlert (''Site creation failed: '' @ fm) ''red'']"
    using deliver_then_failed [of fm evs t ?s'] by blast
  from run bar eff later quiet hundred fails show "?r = Completed ?s'
     \<and> bar_width (progress_dialog (state_of ?r)) = Some ''5%''
     \<and> effects (state_of ?r) = effects s
     \<and> ((\<forall>(data, t) \<in> set evs. progress data \<noteq> JNum 100) \<longrightarrow>
          count_list (effects (deliver evs (state_of ?r))) ReloadDoc =
            count_list (effects s) ReloadDoc
          \<and> count_list (effects (deliver evs (state_of ?r)))
              (ShowAlert ''Site created successfully!'' ''green'') =
            count_list (effects s) (ShowAlert ''Site created successfully!'' ''green''))
     \<and> ((\<forall>(data, t) \<in> set evs.
            progress data \<noteq> JNum 100 \<and>
            \<not> (progress data = JNum 0 \<and>
               (\<exists>m. message data = JStr m \<and> str_includes m ''failed''))) \<longrightarrow>
          effects (deliver evs (state_of ?r)) = effects s)
     \<and> effects (deliver (evs @ [(\<lparr>progress = JNum 100, message = m\<rparr>, t)]) (state_of ?r)) =
         effects (deliver evs (state_of ?r)) @
           [ReloadDoc, ShowAlert ''Site created successfully!'' ''green'']
     \<and> (str_includes fm ''failed'' \<longrightarrow>
          effects (deliver (evs @ [(\<lparr>progress = JNum 0, message = JStr fm\<rparr>, t)])
                     (state_of ?r)) =
            effects (deliver evs (state_of ?r)) @
              [ShowAlert (''Site creation failed: '' @ fm) ''red''])"
    unfolding st by simp
qed

theorem started_ack_is_not_terminal_witness:
  "create_site_callback (Some \<lparr>payload_success = JBool True, payload_message = JUndefined\<rparr>)
       ''10:00:00'' \<lparr>progress_dialog = new_dialog\<lparr>shown := True\<rparr>, effects = []\<rparr> =
     Completed
       \<lparr>progress_dialog =
          \<lparr>shown = True, bar_width = Some ''5%'',
           progress_text = ''Site creation process started...'',
           progress_log = [TextNode (''[10:00:00] Site creation process started...'' @ [CHR 0x0A])]\<rparr>,
        effects = []\<rparr>
   \<and> count_list (effects (deliver
         [(\<lparr>progress = JNum 10, message = JStr ''provisioning''\<rparr>, ''10:00:05''),
          (\<lparr>progress = JNum 0, message = JStr ''retry failed''\<rparr>, ''10:00:09'')]
         (state_of (create_site_callback
            (Some \<lparr>payload_success = JBool True, payload_message = JUndefined\<rparr>)
            ''10:00:00'' \<lparr>progress_dialog = new_dialog\<lparr>shown := True\<rparr>, effects = []\<rparr>))))
       ReloadDoc = 0
   \<and> effects (deliver
         [(\<lparr>progress = JNum 10, message = JStr ''provisioning''\<rparr>, ''10:00:05''),
          (\<lparr>progress = JNum 0, message = JStr ''queued''\<rparr>, ''10:00:09'')]
         (state_of (create_site_callback
            (Some \<lparr>payload_success = JBool True, payload_message = JUndefined\<rparr>)
            ''10:00:00'' \<lparr>progress_dialog = new_dialog\<lparr>shown := True\<rparr>, effects = []\<rparr>))) = []"
proof -
  let ?p = "\<lparr>payload_success = JBool True, payload_message = JUndefined\<rparr>"
  let ?s = "\<lparr>progress_dialog = new_dialog\<lparr>shown := True\<rparr>, effects = []\<rparr>"
  let ?evs = "[(\<lparr>progress = JNum 10, message = JStr ''provisioning''\<rparr>, ''10:00:05''),
               (\<lparr>progress = JNum 0, message = JStr ''retry failed''\<rparr>, ''10:00:09'')]"
  let ?calm = "[(\<lparr>progress = JNum 10, message = JStr ''provisioning''\<rparr>, ''10:00:05''),
                (\<lparr>progress = JNum 0, message = JStr ''queued''\<rparr>, ''10:00:09'')]"
  have ok: "truthy (payload_success ?p)" by simp
  have none: "\<forall>(data, t) \<in> set ?evs. progress data \<noteq> JNum 100" by simp
  have calm: "\<forall>(data, t) \<in> set ?calm.
      progress data \<noteq> JNum 100 \<and>
      \<not> (progress data = JNum 0 \<and> (\<exists>m. message data = JStr m \<and> str_includes m ''failed''))"
    by simp
  note ack = started_ack_is_not_terminal [of ?p "''10:00:00''" ?s ?evs, rule_format, OF ok]
  note ack' = started_ack_is_not_terminal [of ?p "''10:00:00''" ?s ?calm, rule_format, OF ok]
  from ack have run: "create_site_callback (Some ?p) ''10:00:00'' ?s =
      Completed (?s\<lparr>progress_dialog :=
        update_progress (JNum 5) (JStr ''Site creation process started...'') ''10:00:00''
          (progress_dialog ?s)\<rparr>)"
    by (rule conjunct1)
  from ack none have cnt:
    "count_list (effects (deliver ?evs (state_of (create_site_callback (Some ?p) ''10:00:00'' ?s))))
       ReloadDoc = count_list (effects ?s) ReloadDoc"
    by blast
  from ack' calm have quiet:
    "effects (deliver ?calm (state_of (create_site_callback (Some ?p) ''10:00:00'' ?s))) =
       effects ?s"
    by blast
  have "create_site_callback (Some ?p) ''10:00:00'' ?s =
     Completed
       \<lparr>progress_dialog =
          \<lparr>shown = True, bar_width = Some ''5%'',
           progress_text = ''Site creation process started...'',
           progress_log = [TextNode (''[10:00:00] Site creation process started...'' @ [CHR 0x0A])]\<rparr>,
        effects = []\<rparr>"
    unfolding run
    by (simp add: update_progress_def set_text_def css_width_def is_safe_integer_def
        appended_def new_dialog_def log_entry_def show_int_5)
  moreover from cnt have
    "count_list (effects (deliver ?evs (state_of (create_site_callback (Some ?p) ''10:00:00'' ?s))))
       ReloadDoc = 0"
    by simp
  moreover from quiet have
    "effects (deliver ?calm (state_of (create_site_callback (Some ?p) ''10:00:00'' ?s))) = []"
    by simp
  ultimately show ?thesis by blast
qed

text \<open>
  C7 as stated fails: after a successful acknowledgment an event with progress 0 and the
  message "retry failed" raises the red failure notification, with no event of progress
  100 delivered.
\<close>

theorem failure_alert_before_100_counterexample:
  "effects (deliver
      [(\<lparr>progress = JNum 0, message = JStr ''retry failed''\<rparr>, ''10:00:09'')]
      (state_of (create_site_callback
         (Some \<lparr>payload_success = JBool True, payload_message = JUndefined\<rparr>)
         ''10:00:00'' \<lparr>progress_dialog = new_dialog\<lparr>shown := True\<rparr>, effects = []\<rparr>))) =
     [ShowAlert ''Site creation failed: retry failed'' ''red'']"
  by (simp add: create_site_callback_def on_site_creation_progress_def Let_def)

text \<open>
  C8. \<open>update_progress\<close> hands the entry "[timestamp] message" to \<open>append\<close>, which takes a
  string with a "<" or a character reference as HTML: the entry of such a message is parsed
  into nodes and is not in the log as the text "[timestamp] message". The text of the same
  message is set with \<open>text\<close>, which does not parse. (Entries without markup are appended
  as text, one for each call and in the order of the calls, see \<open>render_all_plain_log\<close>.)
\<close>

theorem markup_in_message_is_parsed:
  "progress_log (update_progress (JNum 10) (JStr ''import failed in <module>'') ''10:00:05''
       new_dialog) =
     [Markup (''[10:00:05] import failed in <module>'' @ [CHR 0x0A])]
   \<and> progress_text (update_progress (JNum 10) (JStr ''import failed in <module>'') ''10:00:05''
       new_dialog) = ''import failed in <module>''"
  by (simp add: update_progress_def set_text_def appended_def log_entry_def new_dialog_def)

text \<open>
  C9. \<open>start_site_creation\<close> shows the dialog, then registers the listener, then issues
  the start call, all in the same run: the registration comes before the call is sent,
  hence before its response can arrive.
\<close>

theorem listener_registered_before_call:
  "effects (start_site_creation frm page) =
     page @
       [DialogShow,
        RealtimeOn ''site_creation_progress'',
        Call ''saas_package_management.saas_package_management.doctype.customer_site.customer_site.create_site''
          [(''customer_site'', site_name frm)]]
   \<and> shown (progress_dialog (start_site_creation frm page))
   \<and> (\<exists>i j. i < j \<and> j < length (effects (start_site_creation frm page))
         \<and> effects (start_site_creation frm page) ! i = RealtimeOn ''site_creation_progress''
         \<and> effects (start_site_creation frm page) ! j =
             Call ''saas_package_management.saas_package_management.doctype.customer_site.customer_site.create_site''
               [(''customer_site'', site_name frm)])"
proof -
  let ?e = "effects (start_site_creation frm page)"
  have eq: "?e = page @
       [DialogShow,
        RealtimeOn ''site_creation_progress'',
        Call ''saas_package_management.saas_package_management.doctype.customer_site.customer_site.create_site''
          [(''customer_site'', site_name frm)]]"
    by (simp add: start_site_creation_def)
  have sh: "shown (progress_dialog (start_site_creation frm page))"
    by (simp add: start_site_creation_def)
  have i: "?e ! (length page + 1) = RealtimeOn ''site_creation_progress''"
    unfolding eq by (simp add: nth_append)
  have j: "?e ! (length page + 2) =
      Call ''saas_package_management.saas_package_management.doctype.customer_site.customer_site.create_site''
        [(''customer_site'', site_name frm)]"
    unfolding eq by (simp add: nth_append)
  have len: "length page + 2 < length ?e" unfolding eq by simp
  have "length page + 1 < length page + 2" by simp
  with i j len have "\<exists>i j. i < j \<and> j < length ?e
         \<and> ?e ! i = RealtimeOn ''site_creation_progress''
         \<and> ?e ! j =
             Call ''saas_package_management.saas_package_management.doctype.customer_site.customer_site.create_site''
               [(''customer_site'', site_name frm)]"
    by blast
  with eq sh show ?thesis by blast
qed

theorem listener_registered_before_call_witness:
  "effects (start_site_creation
       \<lparr>site_name = JStr ''acme-site'', site_status = JStr ''Active'',
        site_custom_domain = JStr ''acme'', site_instance = JStr ''inst-1'',
        site_package = JStr ''pro''\<rparr> []) =
     [DialogShow,
      RealtimeOn ''site_creation_progress'',
      Call ''saas_package_management.saas_package_management.doctype.customer_site.customer_site.create_site''
        [(''customer_site'', JStr ''acme-site'')]]"
  using listener_registered_before_call [of
      "\<lparr>site_name = JStr ''acme-site'', site_status = JStr ''Active'',
        site_custom_domain = JStr ''acme'', site_instance = JStr ''inst-1'',
        site_package = JStr ''pro''\<rparr>" "[]"]
  by simp

section \<open>Claim about the Customer Request form\<close>

text \<open>
  C10. With a non-empty customer name and an empty domain, the suggestion is the name in
  lower case, every run of whitespace replaced by one hyphen, every character other than
  ASCII letters, digits and the hyphen removed, cut to 20 characters. If the suggestion is
  not empty it becomes the domain (and the preview shows it); otherwise the form stays as
  it is. With a domain already set, the form stays as it is.
\<close>

theorem customer_name_suggests_domain:
  "(customer_name frm = JStr customer \<and> customer \<noteq> [] \<and> \<not> truthy (custom_domain frm) \<longrightarrow>
      suggest_domain customer =
        take 20 (filter is_domain_char (replace_runs is_space ''-'' (map to_lower_case customer)))
      \<and> on_customer_name frm =
          Completed
            (if suggest_domain customer \<noteq> [] then
               frm\<lparr>custom_domain := JStr (suggest_domain customer),
                   preview :=
                     (if domain_field_present frm then
                        Some (if suffix ''.ibssaas.com'' (suggest_domain customer)
                              then suggest_domain customer
                              else suggest_domain customer @ ''.ibssaas.com'')
                      else None)\<rparr>
             else frm))
   \<and> (truthy (custom_domain frm) \<longrightarrow> on_customer_name frm = Completed frm)"
proof (intro conjI impI)
  assume a: "customer_name frm = JStr customer \<and> customer \<noteq> [] \<and> \<not> truthy (custom_domain frm)"
  let ?sug = "suggest_domain customer"
  let ?frm1 = "frm\<lparr>custom_domain := JStr ?sug\<rparr>"
  let ?pv = "if domain_field_present frm
        then Some (if suffix ''.ibssaas.com'' ?sug then ?sug else ?sug @ ''.ibssaas.com'')
        else None"
  show "?sug =
      take 20 (filter is_domain_char (replace_runs is_space ''-'' (map to_lower_case customer)))"
    by (rule suggest_domain_filter)
  show "on_customer_name frm =
      Completed (if ?sug \<noteq> [] then frm\<lparr>custom_domain := JStr ?sug, preview := ?pv\<rparr> else frm)"
  proof (cases "?sug = []")
    case True
    with a show ?thesis by (simp add: on_customer_name_def)
  next
    case False
    then have s1: "show_domain_preview ?frm1 = Completed (?frm1\<lparr>preview := ?pv\<rparr>)"
      using show_domain_preview_string [of ?sug ?frm1] by simp
    from False have s2: "show_domain_preview (?frm1\<lparr>preview := ?pv\<rparr>) =
        Completed (?frm1\<lparr>preview := ?pv\<rparr>)"
      using show_domain_preview_string [of ?sug "?frm1\<lparr>preview := ?pv\<rparr>"] by simp
    from a False have "on_customer_name frm =
        and_then (show_domain_preview ?frm1) show_domain_preview"
      by (simp add: on_customer_name_def set_custom_domain_def)
    with s1 s2 have "on_customer_name frm = Completed (?frm1\<lparr>preview := ?pv\<rparr>)" by simp
    with False show ?thesis by simp
  qed
next
  assume "truthy (custom_domain frm)"
  then show "on_customer_name frm = Completed frm" by (simp add: on_customer_name_def)
qed

theorem customer_name_suggests_domain_witness:
  "on_customer_name \<lparr>customer_name = JStr ''Acme Corp  Ltd.'', custom_domain = JStr [],
        preview = None, domain_field_present = True\<rparr> =
     Completed \<lparr>customer_name = JStr ''Acme Corp  Ltd.'', custom_domain = JStr ''acme-corp-ltd'',
        preview = Some ''acme-corp-ltd.ibssaas.com'', domain_field_present = True\<rparr>
   \<and> on_customer_name \<lparr>customer_name = JStr ''Acme Corp  Ltd.'', custom_domain = JStr ''acme'',
        preview = None, domain_field_present = True\<rparr> =
     Completed \<lparr>customer_name = JStr ''Acme Corp  Ltd.'', custom_domain = JStr ''acme'',
        preview = None, domain_field_present = True\<rparr>"
proof -
  let ?frm = "\<lparr>customer_name = JStr ''Acme Corp  Ltd.'', custom_domain = JStr [],
        preview = None, domain_field_present = True\<rparr>"
  let ?set = "\<lparr>customer_name = JStr ''Acme Corp  Ltd.'', custom_domain = JStr ''acme'',
        preview = None, domain_field_present = True\<rparr>"
  have sug: "suggest_domain ''Acme Corp  Ltd.'' = ''acme-corp-ltd''" by code_simp
  have suf: "\<not> suffix ''.ibssaas.com'' ''acme-corp-ltd''" by code_simp
  have hyp: "customer_name ?frm = JStr ''Acme Corp  Ltd.'' \<and> ''Acme Corp  Ltd.'' \<noteq> [] \<and>
      \<not> truthy (custom_domain ?frm)" by simp
  from customer_name_suggests_domain [of ?frm "''Acme Corp  Ltd.''"] hyp
  have "on_customer_name ?frm =
      Completed
        (if suggest_domain ''Acme Corp  Ltd.'' \<noteq> [] then
           ?frm\<lparr>custom_domain := JStr (suggest_domain ''Acme Corp  Ltd.''),
                preview :=
                  (if domain_field_present ?frm then
                     Some (if suffix ''.ibssaas.com'' (suggest_domain ''Acme Corp  Ltd.'')
                           then suggest_domain ''Acme Corp  Ltd.''
                           else suggest_domain ''Acme Corp  Ltd.'' @ ''.ibssaas.com'')
                   else None)\<rparr>
         else ?frm)"
    by blast
  then have full: "on_customer_name ?frm =
     Completed \<lparr>customer_name = JStr ''Acme Corp  Ltd.'', custom_domain = JStr ''acme-corp-ltd'',
        preview = Some ''acme-corp-ltd.ibssaas.com'', domain_field_present = True\<rparr>"
    unfolding sug using suf by simp
  have "truthy (custom_domain ?set)" by simp
  with customer_name_suggests_domain [of ?set "''Acme Corp  Ltd.''"]
  have "on_customer_name ?set = Completed ?set" by blast
  with full show ?thesis by simp
qed

end
